theory Spec2Isabelle
  imports Complex_Main "HOL-Library.Word"
begin

unbundle bit_operations_syntax

section \<open>The RIP scenario driver \<^verbatim>\<open>rip-simple-network.cc\<close>\<close>

text \<open>
  The program is one ns-3 driver: \<^verbatim>\<open>main\<close> builds six nodes and seven CSMA networks,
  configures RIP on the four routers, assigns addresses, installs static default routes
  on the two hosts, a ping application on the source, and schedules two link failures
  and two recoveries through the handlers \<^verbatim>\<open>TearDownLink\<close> and \<^verbatim>\<open>RecoverLink\<close>.

  The embedding follows the text of \<^verbatim>\<open>main\<close> statement by statement. Every statement is a
  step on an explicit state (\<open>world\<close>) that holds the local variables of \<^verbatim>\<open>main\<close>, the
  global \<^verbatim>\<open>g_anim\<close> and the part of the simulator's state the statements read or write.
  The ns-3 calls are modelled by what they do to that state (the library is not part of
  the repository): in particular the internet stack gives every node the loopback
  interface as interface 0, and \<^verbatim>\<open>Ipv4AddressHelper::Assign\<close> adds one interface per device,
  in the order of the calls, so a node's interfaces are numbered 1, 2, 3 in the order in
  which its networks are assigned. The source relies on this numbering: line 297 tears
  down ``the link between B and D'' (header comment, line 23) as interface 3 of B and
  interface 2 of D.
\<close>

subsection \<open>Values\<close>

text \<open>The six nodes, by the names registered with \<^verbatim>\<open>Names::Add\<close> (lines 125 to 136).\<close>

datatype node = SrcNode | DstNode | RouterA | RouterB | RouterC | RouterD

text \<open>Simulation time in nanoseconds, the default resolution of ns-3.\<close>

type_synonym Time = int

definition Seconds :: "int \<Rightarrow> Time" where
  "Seconds s = s * 1000000000"

definition MilliSeconds :: "int \<Rightarrow> Time" where
  "MilliSeconds ms = ms * 1000000"

type_synonym Ipv4Address = "32 word"
type_synonym Ipv4Mask = "32 word"

text \<open>
  Reading a dotted-quad string: each decimal field is accumulated in a byte, a dot
  shifts the byte into the host-order address.
\<close>

fun AsciiToIpv4Host :: "string \<Rightarrow> 32 word \<Rightarrow> 8 word \<Rightarrow> 32 word" where
  "AsciiToIpv4Host [] host byte = (push_bit 8 host OR ucast byte)"
| "AsciiToIpv4Host (c # cs) host byte =
     (if c = CHR ''.'' then AsciiToIpv4Host cs (push_bit 8 host OR ucast byte) 0
      else AsciiToIpv4Host cs host (byte * 10 + (of_char c - of_char (CHR ''0''))))"

definition Ipv4Address :: "string \<Rightarrow> Ipv4Address" where
  "Ipv4Address s = AsciiToIpv4Host s 0 0"

definition Ipv4Mask :: "string \<Rightarrow> Ipv4Mask" where
  "Ipv4Mask s = AsciiToIpv4Host s 0 0"

definition CombineMask :: "Ipv4Address \<Rightarrow> Ipv4Mask \<Rightarrow> Ipv4Address" where
  "CombineMask a m = (a AND m)"

datatype SplitHorizonType_e = NO_SPLIT_HORIZON | SPLIT_HORIZON | POISON_REVERSE

datatype LogLevel = LOG_PREFIX_TIME_NODE | LOG_LEVEL_INFO | LOG_LEVEL_ALL

datatype log_enable = EnableAll LogLevel | Enable string LogLevel

datatype VerboseMode = QUIET | VERBOSE | SILENT

datatype AnimationInterface_ptr = nullptr | addr_anim

datatype error =
    NoNetDeviceContainer
  | NoIpv4
  | NoSuchInterface
  | NoStaticRouting
  | NoApplication
  | NoAnimationInterface

subsection \<open>Objects\<close>

record Channel =
  ch_DataRate :: nat
  ch_Delay :: Time

text \<open>A device is identified by its node and the index of the channel it is attached to.\<close>

record NetDevice =
  dev_node :: node
  dev_channel :: nat

record Ipv4Interface =
  if_device :: "NetDevice option"
  if_addresses :: "(Ipv4Address \<times> Ipv4Mask) list"
  if_metric :: nat
  if_up :: bool

text \<open>
  The RIP helper holds, per node, the excluded interface numbers and the interface
  metrics; the protocol instance created for a router receives the entries of its node.
\<close>

record RipHelper =
  m_interfaceExclusions :: "node \<Rightarrow> nat set"
  m_interfaceMetrics :: "node \<Rightarrow> (nat \<rightharpoonup> nat)"

record Rip =
  rip_interfaceExclusions :: "nat set"
  rip_interfaceMetrics :: "nat \<rightharpoonup> nat"

record Ipv4RoutingTableEntry =
  rt_dest :: Ipv4Address
  rt_mask :: Ipv4Mask
  rt_gateway :: Ipv4Address
  rt_interface :: nat

record Ipv4 =
  interfaces :: "Ipv4Interface list"
  rip :: "Rip option"
  staticRouting :: "Ipv4RoutingTableEntry list option"

record CsmaHelper =
  csma_DataRate :: nat
  csma_Delay :: Time

record Ipv4AddressHelper =
  m_network :: Ipv4Address
  m_mask :: Ipv4Mask
  m_address :: Ipv4Address

record PingHelper =
  ping_Destination :: Ipv4Address
  ping_Interval :: "Time option"
  ping_Size :: "nat option"
  ping_VerboseMode :: "VerboseMode option"

record Application =
  app_node :: node
  app_ping :: PingHelper
  m_startTime :: Time
  m_stopTime :: Time

record AnimationInterface =
  anim_fileName :: string
  anim_position :: "node \<rightharpoonup> real \<times> real"
  anim_color :: "node \<rightharpoonup> nat \<times> nat \<times> nat"
  anim_description :: "node \<rightharpoonup> string"

text \<open>The calls that \<^verbatim>\<open>main\<close> hands to \<^verbatim>\<open>Simulator::Schedule\<close>, and the stop event.\<close>

datatype event =
    EvTearDownLink node node nat nat
  | EvRecoverLink node node nat nat
  | EvPrintRoutingTable node
  | EvStop

record world =
  verbose :: bool
  printRoutingTables :: bool
  showPings :: bool
  SplitHorizon :: string
  log_enabled :: "log_enable list"
  config_defaults :: "string \<rightharpoonup> SplitHorizonType_e"
  csma :: CsmaHelper
  channels :: "Channel list"
  ndc :: "nat \<rightharpoonup> NetDevice list"
  ripRouting :: RipHelper
  listRH :: "(RipHelper \<times> int) list"
  ipv4_of :: "node \<rightharpoonup> Ipv4"
  ipv4 :: Ipv4AddressHelper
  iic :: "nat \<rightharpoonup> (node \<times> nat) list"
  ping :: "PingHelper option"
  apps :: "Application list"
  ascii_trace :: "string option"
  pcap_trace :: "(string \<times> bool) option"
  anim :: "AnimationInterface option"
  g_anim :: AnimationInterface_ptr
  events :: "(Time \<times> event) list"
  now :: Time
  executed :: "(Time \<times> event) list"
  routingStream :: "(Time \<times> node) list"

type_synonym step = "world \<Rightarrow> error + world"

text \<open>Statements in sequence: the first failing step ends the run.\<close>

fun run_steps :: "step list \<Rightarrow> world \<Rightarrow> error + world" where
  "run_steps [] w = Inr w"
| "run_steps (s # ss) w = (case s w of Inl e \<Rightarrow> Inl e | Inr w' \<Rightarrow> run_steps ss w')"

definition IF :: "(world \<Rightarrow> bool) \<Rightarrow> step list \<Rightarrow> step list \<Rightarrow> step" where
  "IF c ss ts w = (if c w then run_steps ss w else run_steps ts w)"

subsection \<open>Lists indexed from 0\<close>

fun get_nth :: "nat \<Rightarrow> 'a list \<Rightarrow> 'a option" where
  "get_nth i [] = None"
| "get_nth i (x # xs) = (if i = 0 then Some x else get_nth (i - 1) xs)"

fun update_nth :: "nat \<Rightarrow> ('a \<Rightarrow> 'a) \<Rightarrow> 'a list \<Rightarrow> 'a list option" where
  "update_nth i f [] = None"
| "update_nth i f (x # xs) =
     (if i = 0 then Some (f x # xs) else map_option ((#) x) (update_nth (i - 1) f xs))"

subsection \<open>Command line and global configuration\<close>

text \<open>
  The command line as the list of its recognised assignments, in the order given;
  \<^verbatim>\<open>cmd.Parse\<close> stores each value in the variable bound to the name by \<^verbatim>\<open>cmd.AddValue\<close>
  (lines 88 to 95), a later assignment overwriting an earlier one.
\<close>

datatype arg =
    arg_verbose bool
  | arg_printRoutingTables bool
  | arg_showPings bool
  | arg_splitHorizonStrategy string

fun cmd_Parse_args :: "arg list \<Rightarrow> world \<Rightarrow> world" where
  "cmd_Parse_args [] w = w"
| "cmd_Parse_args (arg_verbose v # as) w = cmd_Parse_args as (w\<lparr>verbose := v\<rparr>)"
| "cmd_Parse_args (arg_printRoutingTables v # as) w =
     cmd_Parse_args as (w\<lparr>printRoutingTables := v\<rparr>)"
| "cmd_Parse_args (arg_showPings v # as) w = cmd_Parse_args as (w\<lparr>showPings := v\<rparr>)"
| "cmd_Parse_args (arg_splitHorizonStrategy s # as) w =
     cmd_Parse_args as (w\<lparr>SplitHorizon := s\<rparr>)"

definition cmd_Parse :: "arg list \<Rightarrow> step" where
  "cmd_Parse argv w = Inr (cmd_Parse_args argv w)"

definition LogComponentEnableAll :: "LogLevel \<Rightarrow> step" where
  "LogComponentEnableAll l w = Inr (w\<lparr>log_enabled := log_enabled w @ [EnableAll l]\<rparr>)"

definition LogComponentEnable :: "string \<Rightarrow> LogLevel \<Rightarrow> step" where
  "LogComponentEnable c l w = Inr (w\<lparr>log_enabled := log_enabled w @ [Enable c l]\<rparr>)"

definition Config_SetDefault :: "string \<Rightarrow> SplitHorizonType_e \<Rightarrow> step" where
  "Config_SetDefault name v w = Inr (w\<lparr>config_defaults := (config_defaults w)(name \<mapsto> v)\<rparr>)"

subsection \<open>Nodes, channels and devices\<close>

text \<open>The node containers of lines 138 to 146.\<close>

definition net1 :: "node list" where "net1 = [SrcNode, RouterA]"
definition net2 :: "node list" where "net2 = [RouterA, RouterB]"
definition net3 :: "node list" where "net3 = [RouterA, RouterC]"
definition net4 :: "node list" where "net4 = [RouterB, RouterC]"
definition net5 :: "node list" where "net5 = [RouterC, RouterD]"
definition net6 :: "node list" where "net6 = [RouterB, RouterD]"
definition net7 :: "node list" where "net7 = [RouterD, DstNode]"
definition routers :: "node list" where "routers = [RouterA, RouterB, RouterC, RouterD]"
definition nodes :: "node list" where "nodes = [SrcNode, DstNode]"

definition csma_SetChannelAttribute_DataRate :: "nat \<Rightarrow> step" where
  "csma_SetChannelAttribute_DataRate r w = Inr (w\<lparr>csma := (csma w)\<lparr>csma_DataRate := r\<rparr>\<rparr>)"

definition csma_SetChannelAttribute_Delay :: "Time \<Rightarrow> step" where
  "csma_SetChannelAttribute_Delay t w = Inr (w\<lparr>csma := (csma w)\<lparr>csma_Delay := t\<rparr>\<rparr>)"

text \<open>
  \<open>csma_Install k c\<close> is \<^verbatim>\<open>ndc<k> = csma.Install(c)\<close>: one new channel with the helper's
  current attributes and one device per node of the container, in the container's order.
\<close>

definition csma_Install :: "nat \<Rightarrow> node list \<Rightarrow> step" where
  "csma_Install k c w =
     (let ch = length (channels w) in
      Inr (w\<lparr>channels := channels w @
                [\<lparr>ch_DataRate = csma_DataRate (csma w), ch_Delay = csma_Delay (csma w)\<rparr>],
             ndc := (ndc w)(k \<mapsto> map (\<lambda>n. \<lparr>dev_node = n, dev_channel = ch\<rparr>) c)\<rparr>))"

subsection \<open>RIP helper and internet stacks\<close>

definition ripRouting_ExcludeInterface :: "node \<Rightarrow> nat \<Rightarrow> step" where
  "ripRouting_ExcludeInterface n i w =
     (let h = ripRouting w in
      Inr (w\<lparr>ripRouting := h\<lparr>m_interfaceExclusions :=
              (m_interfaceExclusions h)(n := insert i (m_interfaceExclusions h n))\<rparr>\<rparr>))"

definition ripRouting_SetInterfaceMetric :: "node \<Rightarrow> nat \<Rightarrow> nat \<Rightarrow> step" where
  "ripRouting_SetInterfaceMetric n i m w =
     (let h = ripRouting w in
      Inr (w\<lparr>ripRouting := h\<lparr>m_interfaceMetrics :=
              (m_interfaceMetrics h)(n := (m_interfaceMetrics h n)(i \<mapsto> m))\<rparr>\<rparr>))"

text \<open>\<^verbatim>\<open>listRH.Add(ripRouting, priority)\<close> stores a copy of the helper as it is at the call.\<close>

definition listRH_Add_ripRouting :: "int \<Rightarrow> step" where
  "listRH_Add_ripRouting prio w = Inr (w\<lparr>listRH := listRH w @ [(ripRouting w, prio)]\<rparr>)"

definition loopback :: Ipv4Interface where
  "loopback = \<lparr>if_device = None,
               if_addresses = [(Ipv4Address ''127.0.0.1'', Ipv4Mask ''255.0.0.0'')],
               if_metric = 1, if_up = True\<rparr>"

definition RipHelper_Create :: "RipHelper \<Rightarrow> node \<Rightarrow> Rip" where
  "RipHelper_Create h n =
     \<lparr>rip_interfaceExclusions = m_interfaceExclusions h n,
      rip_interfaceMetrics = m_interfaceMetrics h n\<rparr>"

text \<open>
  \<^verbatim>\<open>internet.Install(routers)\<close>, with the list routing helper set (line 194): each node gets
  an IPv4 stack whose only interface is the loopback and whose routing protocol is the
  RIP instance made by the stored helper copy. \<^verbatim>\<open>internetNodes.Install(nodes)\<close> uses the
  default routing of the stack helper, which holds a static routing table and no RIP.
\<close>

definition internet_Install_node :: "node \<Rightarrow> world \<Rightarrow> world" where
  "internet_Install_node n w =
     w\<lparr>ipv4_of := (ipv4_of w)(n \<mapsto>
          \<lparr>interfaces = [loopback],
           rip = (case listRH w of [] \<Rightarrow> None | (h, _) # _ \<Rightarrow> Some (RipHelper_Create h n)),
           staticRouting = None\<rparr>)\<rparr>"

definition internet_Install :: "node list \<Rightarrow> step" where
  "internet_Install c w = Inr (fold internet_Install_node c w)"

definition internetNodes_Install_node :: "node \<Rightarrow> world \<Rightarrow> world" where
  "internetNodes_Install_node n w =
     w\<lparr>ipv4_of := (ipv4_of w)(n \<mapsto>
          \<lparr>interfaces = [loopback], rip = None, staticRouting = Some []\<rparr>)\<rparr>"

definition internetNodes_Install :: "node list \<Rightarrow> step" where
  "internetNodes_Install c w = Inr (fold internetNodes_Install_node c w)"

subsection \<open>Address assignment\<close>

definition ipv4_SetBase :: "Ipv4Address \<Rightarrow> Ipv4Mask \<Rightarrow> step" where
  "ipv4_SetBase network msk w =
     Inr (w\<lparr>ipv4 := \<lparr>m_network = network, m_mask = msk, m_address = Ipv4Address ''0.0.0.1''\<rparr>\<rparr>)"

fun GetInterfaceForDevice :: "Ipv4Interface list \<Rightarrow> NetDevice \<Rightarrow> nat \<Rightarrow> nat option" where
  "GetInterfaceForDevice [] d i = None"
| "GetInterfaceForDevice (x # xs) d i =
     (if if_device x = Some d then Some i else GetInterfaceForDevice xs d (i + 1))"

definition AddInterface :: "NetDevice \<Rightarrow> Ipv4Interface" where
  "AddInterface d = \<lparr>if_device = Some d, if_addresses = [], if_metric = 1, if_up = False\<rparr>"

text \<open>
  One round of the loop of \<^verbatim>\<open>Ipv4AddressHelper::Assign\<close>: the interface of the device is
  looked up on its node, added at the end of the node's interface list when there is
  none, and receives the next address of the helper, metric 1 and the state up.
\<close>

definition Assign_device :: "NetDevice \<Rightarrow> world \<Rightarrow> error + (world \<times> (node \<times> nat))" where
  "Assign_device d w =
     (case ipv4_of w (dev_node d) of
        None \<Rightarrow> Inl NoIpv4
      | Some s \<Rightarrow>
          (let (i, ifs) =
                 (case GetInterfaceForDevice (interfaces s) d 0 of
                    Some i \<Rightarrow> (i, interfaces s)
                  | None \<Rightarrow> (length (interfaces s), interfaces s @ [AddInterface d]));
               addr = (m_network (ipv4 w) OR m_address (ipv4 w))
           in case update_nth i
                     (\<lambda>x. x\<lparr>if_addresses := if_addresses x @ [(addr, m_mask (ipv4 w))],
                             if_metric := 1, if_up := True\<rparr>) ifs of
                None \<Rightarrow> Inl NoSuchInterface
              | Some ifs' \<Rightarrow>
                  Inr (w\<lparr>ipv4_of := (ipv4_of w)(dev_node d \<mapsto> s\<lparr>interfaces := ifs'\<rparr>),
                         ipv4 := (ipv4 w)\<lparr>m_address := m_address (ipv4 w) + 1\<rparr>\<rparr>,
                       (dev_node d, i))))"

fun Assign_devices ::
  "NetDevice list \<Rightarrow> (node \<times> nat) list \<Rightarrow> world \<Rightarrow> error + (world \<times> (node \<times> nat) list)" where
  "Assign_devices [] acc w = Inr (w, acc)"
| "Assign_devices (d # ds) acc w =
     (case Assign_device d w of
        Inl e \<Rightarrow> Inl e
      | Inr (w', r) \<Rightarrow> Assign_devices ds (acc @ [r]) w')"

text \<open>\<open>ipv4_Assign k\<close> is \<^verbatim>\<open>iic<k> = ipv4.Assign(ndc<k>)\<close>.\<close>

definition ipv4_Assign :: "nat \<Rightarrow> step" where
  "ipv4_Assign k w =
     (case ndc w k of
        None \<Rightarrow> Inl NoNetDeviceContainer
      | Some ds \<Rightarrow>
          (case Assign_devices ds [] w of
             Inl e \<Rightarrow> Inl e
           | Inr (w', r) \<Rightarrow> Inr (w'\<lparr>iic := (iic w')(k \<mapsto> r)\<rparr>)))"

text \<open>
  Lines 228 to 230 (and 232 to 234) in one step: the static routing protocol of the
  node is fetched and \<^verbatim>\<open>SetDefaultRoute(nextHop, interface)\<close> adds the route to 0.0.0.0/0.
\<close>

definition staticRouting_SetDefaultRoute :: "node \<Rightarrow> Ipv4Address \<Rightarrow> nat \<Rightarrow> step" where
  "staticRouting_SetDefaultRoute n nextHop interface w =
     (case ipv4_of w n of
        None \<Rightarrow> Inl NoIpv4
      | Some s \<Rightarrow>
          (case staticRouting s of
             None \<Rightarrow> Inl NoStaticRouting
           | Some rs \<Rightarrow>
               Inr (w\<lparr>ipv4_of := (ipv4_of w)(n \<mapsto> s\<lparr>staticRouting := Some (rs @
                      [\<lparr>rt_dest = Ipv4Address ''0.0.0.0'', rt_mask = Ipv4Mask ''0.0.0.0'',
                        rt_gateway = nextHop, rt_interface = interface\<rparr>])\<rparr>)\<rparr>)))"

subsection \<open>Simulator events\<close>

text \<open>\<^verbatim>\<open>Simulator::Schedule(delay, ...)\<close> queues the call for the time \<open>now + delay\<close>.\<close>

definition Simulator_Schedule :: "Time \<Rightarrow> event \<Rightarrow> step" where
  "Simulator_Schedule delay ev w = Inr (w\<lparr>events := events w @ [(now w + delay, ev)]\<rparr>)"

definition PrintRoutingTableAt :: "Time \<Rightarrow> node \<Rightarrow> step" where
  "PrintRoutingTableAt printTime n = Simulator_Schedule printTime (EvPrintRoutingTable n)"

definition Simulator_Stop :: "Time \<Rightarrow> step" where
  "Simulator_Stop delay = Simulator_Schedule delay EvStop"

subsection \<open>Ping application and traces\<close>

definition PingHelper_new :: "Ipv4Address \<Rightarrow> step" where
  "PingHelper_new remote w =
     Inr (w\<lparr>ping := Some \<lparr>ping_Destination = remote, ping_Interval = None,
                           ping_Size = None, ping_VerboseMode = None\<rparr>\<rparr>)"

definition ping_SetAttribute :: "(PingHelper \<Rightarrow> PingHelper) \<Rightarrow> step" where
  "ping_SetAttribute f w =
     (case ping w of None \<Rightarrow> Inl NoApplication | Some p \<Rightarrow> Inr (w\<lparr>ping := Some (f p)\<rparr>))"

definition ping_SetAttribute_Interval :: "Time \<Rightarrow> step" where
  "ping_SetAttribute_Interval t = ping_SetAttribute (\<lambda>p. p\<lparr>ping_Interval := Some t\<rparr>)"

definition ping_SetAttribute_Size :: "nat \<Rightarrow> step" where
  "ping_SetAttribute_Size n = ping_SetAttribute (\<lambda>p. p\<lparr>ping_Size := Some n\<rparr>)"

definition ping_SetAttribute_VerboseMode :: "VerboseMode \<Rightarrow> step" where
  "ping_SetAttribute_VerboseMode m = ping_SetAttribute (\<lambda>p. p\<lparr>ping_VerboseMode := Some m\<rparr>)"

text \<open>\<^verbatim>\<open>apps = ping.Install(node)\<close>: the container \<open>apps\<close> holds the one new application.\<close>

definition ping_Install :: "node \<Rightarrow> step" where
  "ping_Install n w =
     (case ping w of
        None \<Rightarrow> Inl NoApplication
      | Some p \<Rightarrow>
          Inr (w\<lparr>apps := [\<lparr>app_node = n, app_ping = p, m_startTime = 0, m_stopTime = 0\<rparr>]\<rparr>))"

definition apps_Start :: "Time \<Rightarrow> step" where
  "apps_Start t w = Inr (w\<lparr>apps := map (\<lambda>x. x\<lparr>m_startTime := t\<rparr>) (apps w)\<rparr>)"

definition apps_Stop :: "Time \<Rightarrow> step" where
  "apps_Stop t w = Inr (w\<lparr>apps := map (\<lambda>x. x\<lparr>m_stopTime := t\<rparr>) (apps w)\<rparr>)"

definition csma_EnableAsciiAll :: "string \<Rightarrow> step" where
  "csma_EnableAsciiAll f w = Inr (w\<lparr>ascii_trace := Some f\<rparr>)"

definition csma_EnablePcapAll :: "string \<Rightarrow> bool \<Rightarrow> step" where
  "csma_EnablePcapAll prefix promiscuous w = Inr (w\<lparr>pcap_trace := Some (prefix, promiscuous)\<rparr>)"

subsection \<open>Animation interface and the global pointer\<close>

definition SetConstantPosition :: "node \<Rightarrow> real \<Rightarrow> real \<Rightarrow> AnimationInterface \<Rightarrow> AnimationInterface" where
  "SetConstantPosition n x y a = a\<lparr>anim_position := (anim_position a)(n \<mapsto> (x, y))\<rparr>"

definition UpdateNodeColor ::
  "node \<Rightarrow> nat \<Rightarrow> nat \<Rightarrow> nat \<Rightarrow> AnimationInterface \<Rightarrow> AnimationInterface" where
  "UpdateNodeColor n r g b a = a\<lparr>anim_color := (anim_color a)(n \<mapsto> (r, g, b))\<rparr>"

definition UpdateNodeDescription :: "node \<Rightarrow> string \<Rightarrow> AnimationInterface \<Rightarrow> AnimationInterface" where
  "UpdateNodeDescription n descr a = a\<lparr>anim_description := (anim_description a)(n \<mapsto> descr)\<rparr>"

text \<open>Line 279: the local object \<open>anim\<close> of \<^verbatim>\<open>main\<close>, with the file name built from the flag.\<close>

definition AnimationInterface_new :: step where
  "AnimationInterface_new w =
     Inr (w\<lparr>anim := Some \<lparr>anim_fileName = ''rip-simple-routing-'' @ SplitHorizon w @ ''.xml'',
                           anim_position = Map.empty, anim_color = Map.empty,
                           anim_description = Map.empty\<rparr>\<rparr>)"

definition set_g_anim :: "AnimationInterface_ptr \<Rightarrow> step" where
  "set_g_anim p w = Inr (w\<lparr>g_anim := p\<rparr>)"

text \<open>A call on the local object \<open>anim\<close>.\<close>

definition anim_call :: "(AnimationInterface \<Rightarrow> AnimationInterface) \<Rightarrow> step" where
  "anim_call f w =
     (case anim w of None \<Rightarrow> Inl NoAnimationInterface | Some a \<Rightarrow> Inr (w\<lparr>anim := Some (f a)\<rparr>))"

text \<open>
  A call through the global pointer, \<^verbatim>\<open>g_anim->f(...)\<close>: the pointer is either null or
  the address of the local object \<open>anim\<close>.
\<close>

definition g_anim_call :: "(AnimationInterface \<Rightarrow> AnimationInterface) \<Rightarrow> step" where
  "g_anim_call f w =
     (case g_anim w of nullptr \<Rightarrow> Inl NoAnimationInterface | addr_anim \<Rightarrow> anim_call f w)"

subsection \<open>The handlers \<^verbatim>\<open>TearDownLink\<close> and \<^verbatim>\<open>RecoverLink\<close>\<close>

text \<open>
  \<^verbatim>\<open>GetObject<Ipv4>()->SetDown(i)\<close> and \<^verbatim>\<open>SetUp(i)\<close>: the admin state of interface \<open>i\<close> of the
  node is set. In ns-3 the call also tells the node's routing protocol about the change;
  what the protocol then does (routes, triggered updates) is the library's and is not
  modelled, and no statement below is about it.
\<close>

definition Ipv4_SetUpDown :: "bool \<Rightarrow> node \<Rightarrow> nat \<Rightarrow> step" where
  "Ipv4_SetUpDown st n i w =
     (case ipv4_of w n of
        None \<Rightarrow> Inl NoIpv4
      | Some s \<Rightarrow>
          (case update_nth i (\<lambda>x. x\<lparr>if_up := st\<rparr>) (interfaces s) of
             None \<Rightarrow> Inl NoSuchInterface
           | Some ifs \<Rightarrow> Inr (w\<lparr>ipv4_of := (ipv4_of w)(n \<mapsto> s\<lparr>interfaces := ifs\<rparr>)\<rparr>)))"

definition Ipv4_SetDown :: "node \<Rightarrow> nat \<Rightarrow> step" where
  "Ipv4_SetDown = Ipv4_SetUpDown False"

definition Ipv4_SetUp :: "node \<Rightarrow> nat \<Rightarrow> step" where
  "Ipv4_SetUp = Ipv4_SetUpDown True"

definition TearDownLink :: "node \<Rightarrow> node \<Rightarrow> nat \<Rightarrow> nat \<Rightarrow> step" where
  "TearDownLink nodeA nodeB interfaceA interfaceB =
     run_steps
       [Ipv4_SetDown nodeA interfaceA,
        Ipv4_SetDown nodeB interfaceB,
        IF (\<lambda>w. g_anim w \<noteq> nullptr)
          [g_anim_call (UpdateNodeColor nodeA 255 0 0),
           g_anim_call (UpdateNodeColor nodeB 255 0 0),
           g_anim_call (UpdateNodeDescription nodeA ''Link Down''),
           g_anim_call (UpdateNodeDescription nodeB ''Link Down'')]
          []]"

definition RecoverLink :: "node \<Rightarrow> node \<Rightarrow> nat \<Rightarrow> nat \<Rightarrow> step" where
  "RecoverLink nodeA nodeB interfaceA interfaceB =
     run_steps
       [Ipv4_SetUp nodeA interfaceA,
        Ipv4_SetUp nodeB interfaceB,
        IF (\<lambda>w. g_anim w \<noteq> nullptr)
          [g_anim_call (UpdateNodeColor nodeA 0 255 0),
           g_anim_call (UpdateNodeColor nodeB 0 255 0),
           g_anim_call (UpdateNodeDescription nodeA ''Link Up''),
           g_anim_call (UpdateNodeDescription nodeB ''Link Up'')]
          []]"

subsection \<open>Running the simulation\<close>

text \<open>
  What a queued call does when it fires. Printing a routing table appends one snapshot
  record (time, router) to the output stream; the contents of the table are the RIP
  engine's, which is ns-3's and not modelled.
\<close>

fun Invoke :: "event \<Rightarrow> step" where
  "Invoke (EvTearDownLink nodeA nodeB interfaceA interfaceB) =
     TearDownLink nodeA nodeB interfaceA interfaceB"
| "Invoke (EvRecoverLink nodeA nodeB interfaceA interfaceB) =
     RecoverLink nodeA nodeB interfaceA interfaceB"
| "Invoke (EvPrintRoutingTable n) =
     (\<lambda>w. Inr (w\<lparr>routingStream := routingStream w @ [(now w, n)]\<rparr>))"
| "Invoke EvStop = Inr"

text \<open>
  The event loop over the queue in firing order: the clock moves to the time of the
  event, the event is recorded and invoked; the stop event ends the loop and leaves the
  later events in the queue. None of the calls queued by this program schedules a
  further event, so the loop is a recursion over the queue.
\<close>

fun ProcessEvents :: "(Time \<times> event) list \<Rightarrow> step" where
  "ProcessEvents [] w = Inr (w\<lparr>events := []\<rparr>)"
| "ProcessEvents ((t, ev) # es) w =
     (let w1 = w\<lparr>now := t, events := es, executed := executed w @ [(t, ev)]\<rparr> in
      if ev = EvStop then Inr w1
      else (case Invoke ev w1 of Inl e \<Rightarrow> Inl e | Inr w2 \<Rightarrow> ProcessEvents es w2))"

text \<open>
  \<^verbatim>\<open>Simulator::Run\<close>: events fire in the order of their times, events of equal time in
  the order in which they were scheduled (the sort is stable).
\<close>

definition Simulator_Run :: step where
  "Simulator_Run w = ProcessEvents (sort_key fst (events w)) w"

definition Simulator_Destroy :: step where
  "Simulator_Destroy w = Inr (w\<lparr>events := []\<rparr>)"

subsection \<open>The program\<close>

text \<open>
  The state in which \<^verbatim>\<open>main\<close> starts: the initial values of its flags (lines 83 to 86),
  the null global pointer (line 49), default-constructed helpers, time 0 and nothing else.
\<close>

definition world0 :: world where
  "world0 =
     \<lparr>verbose = False, printRoutingTables = False, showPings = False,
      SplitHorizon = ''NoSplitHorizon'',
      log_enabled = [], config_defaults = Map.empty,
      csma = \<lparr>csma_DataRate = 4294967295, csma_Delay = 0\<rparr>,
      channels = [], ndc = Map.empty,
      ripRouting = \<lparr>m_interfaceExclusions = (\<lambda>n. {}), m_interfaceMetrics = (\<lambda>n. Map.empty)\<rparr>,
      listRH = [], ipv4_of = Map.empty,
      ipv4 = \<lparr>m_network = 4294967295, m_mask = 0, m_address = 4294967295\<rparr>,
      iic = Map.empty, ping = None, apps = [],
      ascii_trace = None, pcap_trace = None,
      anim = None, g_anim = nullptr,
      events = [], now = 0, executed = [], routingStream = []\<rparr>"

text \<open>Lines 88 to 305 of \<^verbatim>\<open>main\<close>: everything before \<^verbatim>\<open>Simulator::Run\<close>.\<close>

definition setup_steps :: "arg list \<Rightarrow> step list" where
  "setup_steps argv =
    [cmd_Parse argv,
     IF verbose
       [LogComponentEnableAll LOG_PREFIX_TIME_NODE,
        LogComponentEnable ''RipSimpleRouting'' LOG_LEVEL_INFO,
        LogComponentEnable ''Rip'' LOG_LEVEL_ALL,
        LogComponentEnable ''Ipv4Interface'' LOG_LEVEL_ALL,
        LogComponentEnable ''Icmpv4L4Protocol'' LOG_LEVEL_ALL,
        LogComponentEnable ''Ipv4L3Protocol'' LOG_LEVEL_ALL,
        LogComponentEnable ''ArpCache'' LOG_LEVEL_ALL,
        LogComponentEnable ''Ping'' LOG_LEVEL_ALL]
       [],
     IF (\<lambda>w. SplitHorizon w = ''NoSplitHorizon'')
       [Config_SetDefault ''ns3::RipNg::SplitHorizon'' NO_SPLIT_HORIZON]
       [IF (\<lambda>w. SplitHorizon w = ''SplitHorizon'')
          [Config_SetDefault ''ns3::RipNg::SplitHorizon'' SPLIT_HORIZON]
          [Config_SetDefault ''ns3::RipNg::SplitHorizon'' POISON_REVERSE]],
     csma_SetChannelAttribute_DataRate 5000000,
     csma_SetChannelAttribute_Delay (MilliSeconds 2),
     csma_Install 1 net1,
     csma_SetChannelAttribute_Delay (MilliSeconds 3),
     csma_Install 2 net2,
     csma_SetChannelAttribute_Delay (MilliSeconds 4),
     csma_Install 3 net3,
     csma_SetChannelAttribute_Delay (MilliSeconds 2),
     csma_Install 4 net4,
     csma_SetChannelAttribute_Delay (MilliSeconds 5),
     csma_Install 5 net5,
     csma_SetChannelAttribute_Delay (MilliSeconds 2),
     csma_Install 6 net6,
     csma_SetChannelAttribute_Delay (MilliSeconds 2),
     csma_Install 7 net7,
     ripRouting_ExcludeInterface RouterA 1,
     ripRouting_ExcludeInterface RouterD 3,
     ripRouting_SetInterfaceMetric RouterC 3 10,
     ripRouting_SetInterfaceMetric RouterD 1 10,
     ripRouting_SetInterfaceMetric RouterB 2 5,
     ripRouting_SetInterfaceMetric RouterC 1 5,
     listRH_Add_ripRouting 0,
     internet_Install routers,
     internetNodes_Install nodes,
     ipv4_SetBase (Ipv4Address ''10.0.0.0'') (Ipv4Mask ''255.255.255.0''),
     ipv4_Assign 1,
     ipv4_SetBase (Ipv4Address ''10.0.1.0'') (Ipv4Mask ''255.255.255.0''),
     ipv4_Assign 2,
     ipv4_SetBase (Ipv4Address ''10.0.2.0'') (Ipv4Mask ''255.255.255.0''),
     ipv4_Assign 3,
     ipv4_SetBase (Ipv4Address ''10.0.3.0'') (Ipv4Mask ''255.255.255.0''),
     ipv4_Assign 4,
     ipv4_SetBase (Ipv4Address ''10.0.4.0'') (Ipv4Mask ''255.255.255.0''),
     ipv4_Assign 5,
     ipv4_SetBase (Ipv4Address ''10.0.5.0'') (Ipv4Mask ''255.255.255.0''),
     ipv4_Assign 6,
     ipv4_SetBase (Ipv4Address ''10.0.6.0'') (Ipv4Mask ''255.255.255.0''),
     ipv4_Assign 7,
     staticRouting_SetDefaultRoute SrcNode (Ipv4Address ''10.0.0.2'') 1,
     staticRouting_SetDefaultRoute DstNode (Ipv4Address ''10.0.6.1'') 1,
     IF (\<lambda>w. \<not> printRoutingTables w)
       [PrintRoutingTableAt (Seconds 30) RouterA,
        PrintRoutingTableAt (Seconds 30) RouterB,
        PrintRoutingTableAt (Seconds 30) RouterC,
        PrintRoutingTableAt (Seconds 30) RouterD,
        PrintRoutingTableAt (Seconds 60) RouterA,
        PrintRoutingTableAt (Seconds 60) RouterB,
        PrintRoutingTableAt (Seconds 60) RouterC,
        PrintRoutingTableAt (Seconds 60) RouterD,
        PrintRoutingTableAt (Seconds 90) RouterA,
        PrintRoutingTableAt (Seconds 90) RouterB,
        PrintRoutingTableAt (Seconds 90) RouterC,
        PrintRoutingTableAt (Seconds 90) RouterD]
       [],
     PingHelper_new (Ipv4Address ''10.0.6.2''),
     ping_SetAttribute_Interval (Seconds 1),
     ping_SetAttribute_Size 1024,
     IF (\<lambda>w. \<not> showPings w)
       [ping_SetAttribute_VerboseMode VERBOSE]
       [],
     ping_Install SrcNode,
     apps_Start (Seconds 1),
     apps_Stop (Seconds 110),
     csma_EnableAsciiAll ''rip-simple-routing.tr'',
     csma_EnablePcapAll ''rip-simple-routing'' True,
     AnimationInterface_new,
     set_g_anim addr_anim,
     anim_call (SetConstantPosition SrcNode 0 0),
     anim_call (SetConstantPosition RouterA 2 1),
     anim_call (SetConstantPosition RouterB 4 0),
     anim_call (SetConstantPosition RouterC 2 (- 1)),
     anim_call (SetConstantPosition RouterD 6 0),
     anim_call (SetConstantPosition DstNode 8 0),
     (\<lambda>w. anim_call (UpdateNodeDescription RouterA (''Router A'' @ [CHR 0x0A] @ SplitHorizon w)) w),
     (\<lambda>w. anim_call (UpdateNodeDescription RouterB (''Router B'' @ [CHR 0x0A] @ SplitHorizon w)) w),
     (\<lambda>w. anim_call (UpdateNodeDescription RouterC (''Router C'' @ [CHR 0x0A] @ SplitHorizon w)) w),
     (\<lambda>w. anim_call (UpdateNodeDescription RouterD (''Router D'' @ [CHR 0x0A] @ SplitHorizon w)) w),
     Simulator_Schedule (Seconds 40) (EvTearDownLink RouterB RouterD 3 2),
     Simulator_Schedule (Seconds 60) (EvTearDownLink RouterC RouterD 2 1),
     Simulator_Schedule (Seconds 80) (EvRecoverLink RouterB RouterD 3 2),
     Simulator_Schedule (Seconds 100) (EvRecoverLink RouterC RouterD 2 1),
     Simulator_Stop (Seconds 131)]"

text \<open>The state in which the simulation starts.\<close>

definition scenario :: "arg list \<Rightarrow> error + world" where
  "scenario argv = run_steps (setup_steps argv) world0"

text \<open>
  \<^verbatim>\<open>main\<close>: the set-up, then lines 306 to 311. The result is the exit status with the
  final state, or the error that ended the program.
\<close>

definition main :: "arg list \<Rightarrow> error + (int \<times> world)" where
  "main argv =
     (case run_steps
             (setup_steps argv @ [Simulator_Run, Simulator_Destroy, set_g_anim nullptr])
             world0 of
        Inl e \<Rightarrow> Inl e
      | Inr w \<Rightarrow> Inr (0, w))"

subsection \<open>Observations\<close>

text \<open>
  What the claims read off a state. \<open>interface_on w k n\<close> is the interface number of node
  \<open>n\<close> on network \<open>k\<close>, as recorded in the interface container \<^verbatim>\<open>iic<k>\<close>.
\<close>

definition interface_on :: "world \<Rightarrow> nat \<Rightarrow> node \<Rightarrow> nat option" where
  "interface_on w k n = (case iic w k of None \<Rightarrow> None | Some c \<Rightarrow> map_of c n)"

definition GetInterface :: "world \<Rightarrow> node \<Rightarrow> nat \<Rightarrow> Ipv4Interface option" where
  "GetInterface w n i =
     (case ipv4_of w n of None \<Rightarrow> None | Some s \<Rightarrow> get_nth i (interfaces s))"

definition IsUp :: "world \<Rightarrow> node \<Rightarrow> nat \<Rightarrow> bool option" where
  "IsUp w n i = map_option if_up (GetInterface w n i)"

definition GetAddresses :: "world \<Rightarrow> node \<Rightarrow> nat \<Rightarrow> (Ipv4Address \<times> Ipv4Mask) list" where
  "GetAddresses w n i = (case GetInterface w n i of None \<Rightarrow> [] | Some x \<Rightarrow> if_addresses x)"

definition GetRip :: "world \<Rightarrow> node \<Rightarrow> Rip option" where
  "GetRip w n = (case ipv4_of w n of None \<Rightarrow> None | Some s \<Rightarrow> rip s)"

text \<open>The metric RIP uses for an interface: the configured one, or 1 when none is configured.\<close>

definition GetInterfaceMetric :: "world \<Rightarrow> node \<Rightarrow> nat \<Rightarrow> nat option" where
  "GetInterfaceMetric w n i =
     (case GetRip w n of
        None \<Rightarrow> None
      | Some r \<Rightarrow> Some (case rip_interfaceMetrics r i of None \<Rightarrow> 1 | Some m \<Rightarrow> m))"

definition IsInterfaceExcluded :: "world \<Rightarrow> node \<Rightarrow> nat \<Rightarrow> bool" where
  "IsInterfaceExcluded w n i =
     (case GetRip w n of None \<Rightarrow> False | Some r \<Rightarrow> i \<in> rip_interfaceExclusions r)"

definition GetStaticRoutes :: "world \<Rightarrow> node \<Rightarrow> Ipv4RoutingTableEntry list option" where
  "GetStaticRoutes w n = (case ipv4_of w n of None \<Rightarrow> None | Some s \<Rightarrow> staticRouting s)"

text \<open>
  Network \<open>k\<close> as built: its endpoints in the order of the container, each with the
  subnets (network address and mask) of its interface on that network.
\<close>

definition network :: "world \<Rightarrow> nat \<Rightarrow> (node \<times> (Ipv4Address \<times> Ipv4Mask) list) list option" where
  "network w k =
     map_option
       (map (\<lambda>ni. (fst ni, map (\<lambda>am. (CombineMask (fst am) (snd am), snd am))
                               (GetAddresses w (fst ni) (snd ni)))))
       (iic w k)"

definition node_color :: "node \<Rightarrow> world \<Rightarrow> (nat \<times> nat \<times> nat) option" where
  "node_color n w = (case anim w of None \<Rightarrow> None | Some a \<Rightarrow> anim_color a n)"




text \<open>
  The simulation stopped at time \<open>t\<close>: a further \<^verbatim>\<open>Simulator::Stop\<close> ahead of
  \<^verbatim>\<open>Simulator::Run\<close>. All events up to and including those of time \<open>t\<close> have fired.
\<close>

definition run_until :: "Time \<Rightarrow> step" where
  "run_until t = run_steps [Simulator_Stop t, Simulator_Run]"

definition is_link_event :: "Time \<times> event \<Rightarrow> bool" where
  "is_link_event te =
     (case snd te of EvTearDownLink _ _ _ _ \<Rightarrow> True | EvRecoverLink _ _ _ _ \<Rightarrow> True
      | _ \<Rightarrow> False)"

section \<open>Evaluating the set-up\<close>

text \<open>
  The set-up part of \<^verbatim>\<open>main\<close> is a straight line of statements apart from four
  conditionals on the flags, so the state it reaches can be computed once, with the four
  flag values left symbolic. The lemmas of this section do that; the claims below read
  their observations off the computed state.
\<close>

lemmas step_defs = cmd_Parse_def LogComponentEnableAll_def LogComponentEnable_def Config_SetDefault_def
  csma_SetChannelAttribute_DataRate_def csma_SetChannelAttribute_Delay_def csma_Install_def
  ripRouting_ExcludeInterface_def ripRouting_SetInterfaceMetric_def listRH_Add_ripRouting_def
  internet_Install_def internet_Install_node_def internetNodes_Install_def internetNodes_Install_node_def
  RipHelper_Create_def loopback_def
  ipv4_SetBase_def AddInterface_def Assign_device_def ipv4_Assign_def staticRouting_SetDefaultRoute_def
  Simulator_Schedule_def PrintRoutingTableAt_def Simulator_Stop_def
  PingHelper_new_def ping_SetAttribute_def ping_SetAttribute_Interval_def ping_SetAttribute_Size_def
  ping_SetAttribute_VerboseMode_def ping_Install_def apps_Start_def apps_Stop_def
  csma_EnableAsciiAll_def csma_EnablePcapAll_def
  SetConstantPosition_def UpdateNodeColor_def UpdateNodeDescription_def AnimationInterface_new_def
  set_g_anim_def anim_call_def g_anim_call_def
  net1_def net2_def net3_def net4_def net5_def net6_def net7_def routers_def nodes_def
  Ipv4Address_def Ipv4Mask_def Seconds_def MilliSeconds_def

lemma IF_let:
  "IF c ss ts w = (let b = c w; x = run_steps ss w; y = run_steps ts w in if b then x else y)"
  by (simp add: IF_def)

lemma if_Inr: "(if c then Inr a else (Inr b :: error + world)) = Inr (if c then a else b)"
  by simp

lemma if_Some: "(if c then Some a else Some b) = Some (if c then a else b)"
  by simp

lemma if_world:
  "(if c then \<lparr>verbose = a1, printRoutingTables = a2, showPings = a3, SplitHorizon = a4,
      log_enabled = a5, config_defaults = a6, csma = a7, channels = a8, ndc = a9,
      ripRouting = a10, listRH = a11, ipv4_of = a12, ipv4 = a13, iic = a14, ping = a15,
      apps = a16, ascii_trace = a17, pcap_trace = a18, anim = a19, g_anim = a20,
      events = a21, now = a22, executed = a23, routingStream = a24\<rparr>
    else \<lparr>verbose = b1, printRoutingTables = b2, showPings = b3, SplitHorizon = b4,
      log_enabled = b5, config_defaults = b6, csma = b7, channels = b8, ndc = b9,
      ripRouting = b10, listRH = b11, ipv4_of = b12, ipv4 = b13, iic = b14, ping = b15,
      apps = b16, ascii_trace = b17, pcap_trace = b18, anim = b19, g_anim = b20,
      events = b21, now = b22, executed = b23, routingStream = b24\<rparr>) =
   \<lparr>verbose = (if c then a1 else b1), printRoutingTables = (if c then a2 else b2),
    showPings = (if c then a3 else b3), SplitHorizon = (if c then a4 else b4),
    log_enabled = (if c then a5 else b5), config_defaults = (if c then a6 else b6),
    csma = (if c then a7 else b7), channels = (if c then a8 else b8),
    ndc = (if c then a9 else b9), ripRouting = (if c then a10 else b10),
    listRH = (if c then a11 else b11), ipv4_of = (if c then a12 else b12),
    ipv4 = (if c then a13 else b13), iic = (if c then a14 else b14),
    ping = (if c then a15 else b15), apps = (if c then a16 else b16),
    ascii_trace = (if c then a17 else b17), pcap_trace = (if c then a18 else b18),
    anim = (if c then a19 else b19), g_anim = (if c then a20 else b20),
    events = (if c then a21 else b21), now = (if c then a22 else b22),
    executed = (if c then a23 else b23), routingStream = (if c then a24 else b24)\<rparr>"
  by simp

lemma if_PingHelper:
  "(if c then \<lparr>ping_Destination = a1, ping_Interval = a2, ping_Size = a3, ping_VerboseMode = a4\<rparr>
    else \<lparr>ping_Destination = b1, ping_Interval = b2, ping_Size = b3, ping_VerboseMode = b4\<rparr>) =
   \<lparr>ping_Destination = (if c then a1 else b1), ping_Interval = (if c then a2 else b2),
    ping_Size = (if c then a3 else b3), ping_VerboseMode = (if c then a4 else b4)\<rparr>"
  by simp

lemma cmd_Parse_args_frame:
  "log_enabled (cmd_Parse_args argv w) = log_enabled w"
  "config_defaults (cmd_Parse_args argv w) = config_defaults w"
  "csma (cmd_Parse_args argv w) = csma w"
  "channels (cmd_Parse_args argv w) = channels w"
  "ndc (cmd_Parse_args argv w) = ndc w"
  "ripRouting (cmd_Parse_args argv w) = ripRouting w"
  "listRH (cmd_Parse_args argv w) = listRH w"
  "ipv4_of (cmd_Parse_args argv w) = ipv4_of w"
  "ipv4 (cmd_Parse_args argv w) = ipv4 w"
  "iic (cmd_Parse_args argv w) = iic w"
  "ping (cmd_Parse_args argv w) = ping w"
  "apps (cmd_Parse_args argv w) = apps w"
  "ascii_trace (cmd_Parse_args argv w) = ascii_trace w"
  "pcap_trace (cmd_Parse_args argv w) = pcap_trace w"
  "anim (cmd_Parse_args argv w) = anim w"
  "g_anim (cmd_Parse_args argv w) = g_anim w"
  "events (cmd_Parse_args argv w) = events w"
  "now (cmd_Parse_args argv w) = now w"
  "executed (cmd_Parse_args argv w) = executed w"
  "routingStream (cmd_Parse_args argv w) = routingStream w"
  "world.more (cmd_Parse_args argv w) = world.more w"
  by (induction argv w rule: cmd_Parse_args.induct) simp_all

lemma cmd_Parse_args_eq:
  "cmd_Parse_args argv w =
     w\<lparr>verbose := verbose (cmd_Parse_args argv w),
       printRoutingTables := printRoutingTables (cmd_Parse_args argv w),
       showPings := showPings (cmd_Parse_args argv w),
       SplitHorizon := SplitHorizon (cmd_Parse_args argv w)\<rparr>"
  by (rule world.equality) (simp_all add: cmd_Parse_args_frame)

lemma scenario_eval:
  assumes "cmd_Parse_args argv world0 =
     world0\<lparr>verbose := v, printRoutingTables := p, showPings := s, SplitHorizon := h\<rparr>"
  shows "scenario argv = Inr
     \<lparr>verbose = v, printRoutingTables = p, showPings = s, SplitHorizon = h,
       log_enabled =
         if v
         then [EnableAll LOG_PREFIX_TIME_NODE,
               Enable ''RipSimpleRouting'' LOG_LEVEL_INFO,
               Enable ''Rip'' LOG_LEVEL_ALL,
               Enable ''Ipv4Interface'' LOG_LEVEL_ALL,
               Enable ''Icmpv4L4Protocol'' LOG_LEVEL_ALL,
               Enable ''Ipv4L3Protocol'' LOG_LEVEL_ALL,
               Enable ''ArpCache'' LOG_LEVEL_ALL,
               Enable ''Ping'' LOG_LEVEL_ALL]
         else [],
       config_defaults =
         if h = ''NoSplitHorizon''
         then [''ns3::RipNg::SplitHorizon'' \<mapsto> NO_SPLIT_HORIZON]
         else if h = ''SplitHorizon''
              then [''ns3::RipNg::SplitHorizon'' \<mapsto> SPLIT_HORIZON]
              else [''ns3::RipNg::SplitHorizon'' \<mapsto> POISON_REVERSE],
       csma = \<lparr>csma_DataRate = 5000000, csma_Delay = 2000000\<rparr>,
       channels =
         [\<lparr>ch_DataRate = 5000000, ch_Delay = 2000000\<rparr>,
          \<lparr>ch_DataRate = 5000000, ch_Delay = 3000000\<rparr>,
          \<lparr>ch_DataRate = 5000000, ch_Delay = 4000000\<rparr>,
          \<lparr>ch_DataRate = 5000000, ch_Delay = 2000000\<rparr>,
          \<lparr>ch_DataRate = 5000000, ch_Delay = 5000000\<rparr>,
          \<lparr>ch_DataRate = 5000000, ch_Delay = 2000000\<rparr>,
          \<lparr>ch_DataRate = 5000000, ch_Delay = 2000000\<rparr>],
       ndc =
         [Suc 0 \<mapsto>
          [\<lparr>dev_node = SrcNode, dev_channel = 0\<rparr>,
           \<lparr>dev_node = RouterA, dev_channel = 0\<rparr>],
          2 \<mapsto>
          [\<lparr>dev_node = RouterA, dev_channel = Suc 0\<rparr>,
           \<lparr>dev_node = RouterB, dev_channel = Suc 0\<rparr>],
          3 \<mapsto>
          [\<lparr>dev_node = RouterA, dev_channel = Suc (Suc 0)\<rparr>,
           \<lparr>dev_node = RouterC, dev_channel = Suc (Suc 0)\<rparr>],
          4 \<mapsto>
          [\<lparr>dev_node = RouterB, dev_channel = Suc (Suc (Suc 0))\<rparr>,
           \<lparr>dev_node = RouterC, dev_channel = Suc (Suc (Suc 0))\<rparr>],
          5 \<mapsto>
          [\<lparr>dev_node = RouterC, dev_channel = Suc (Suc (Suc (Suc 0)))\<rparr>,
           \<lparr>dev_node = RouterD, dev_channel = Suc (Suc (Suc (Suc 0)))\<rparr>],
          6 \<mapsto>
          [\<lparr>dev_node = RouterB,
              dev_channel = Suc (Suc (Suc (Suc (Suc 0))))\<rparr>,
           \<lparr>dev_node = RouterD,
              dev_channel = Suc (Suc (Suc (Suc (Suc 0))))\<rparr>],
          7 \<mapsto>
          [\<lparr>dev_node = RouterD,
              dev_channel = Suc (Suc (Suc (Suc (Suc (Suc 0)))))\<rparr>,
           \<lparr>dev_node = DstNode,
              dev_channel = Suc (Suc (Suc (Suc (Suc (Suc 0)))))\<rparr>]],
       ripRouting =
         \<lparr>m_interfaceExclusions =
            (\<lambda>n. {})(RouterA := {Suc 0}, RouterD := {3}),
            m_interfaceMetrics =
              (\<lambda>n x. None)
              (RouterD := [Suc 0 \<mapsto> 10], RouterB := [2 \<mapsto> 5],
                 RouterC := [3 \<mapsto> 10, Suc 0 \<mapsto> 5])\<rparr>,
       listRH =
         [(\<lparr>m_interfaceExclusions =
              (\<lambda>n. {})(RouterA := {Suc 0}, RouterD := {3}),
              m_interfaceMetrics =
                (\<lambda>n x. None)
                (RouterD := [Suc 0 \<mapsto> 10], RouterB := [2 \<mapsto> 5],
                   RouterC := [3 \<mapsto> 10, Suc 0 \<mapsto> 5])\<rparr>,
           0)],
       ipv4_of =
         [RouterA \<mapsto>
          \<lparr>interfaces =
             [\<lparr>if_device = None, if_addresses = [(2130706433, 4278190080)],
                 if_metric = Suc 0, if_up = True\<rparr>,
              \<lparr>if_device = Some \<lparr>dev_node = RouterA, dev_channel = 0\<rparr>,
                 if_addresses = [(167772162, 4294967040)],
                 if_metric = Suc 0, if_up = True\<rparr>,
              \<lparr>if_device = Some \<lparr>dev_node = RouterA, dev_channel = Suc 0\<rparr>,
                 if_addresses = [(167772417, 4294967040)],
                 if_metric = Suc 0, if_up = True\<rparr>,
              \<lparr>if_device =
                 Some \<lparr>dev_node = RouterA, dev_channel = Suc (Suc 0)\<rparr>,
                 if_addresses = [(167772673, 4294967040)],
                 if_metric = Suc 0, if_up = True\<rparr>],
             rip =
               Some
                \<lparr>rip_interfaceExclusions = {Suc 0},
                   rip_interfaceMetrics = \<lambda>x. None\<rparr>,
             staticRouting = None\<rparr>,
          RouterC \<mapsto>
          \<lparr>interfaces =
             [\<lparr>if_device = None, if_addresses = [(2130706433, 4278190080)],
                 if_metric = Suc 0, if_up = True\<rparr>,
              \<lparr>if_device =
                 Some \<lparr>dev_node = RouterC, dev_channel = Suc (Suc 0)\<rparr>,
                 if_addresses = [(167772674, 4294967040)],
                 if_metric = Suc 0, if_up = True\<rparr>,
              \<lparr>if_device =
                 Some \<lparr>dev_node = RouterC, dev_channel = Suc (Suc (Suc 0))\<rparr>,
                 if_addresses = [(167772930, 4294967040)],
                 if_metric = Suc 0, if_up = True\<rparr>,
              \<lparr>if_device =
                 Some
                  \<lparr>dev_node = RouterC,
                     dev_channel = Suc (Suc (Suc (Suc 0)))\<rparr>,
                 if_addresses = [(167773185, 4294967040)],
                 if_metric = Suc 0, if_up = True\<rparr>],
             rip =
               Some
                \<lparr>rip_interfaceExclusions = {},
                   rip_interfaceMetrics = [3 \<mapsto> 10, Suc 0 \<mapsto> 5]\<rparr>,
             staticRouting = None\<rparr>,
          RouterB \<mapsto>
          \<lparr>interfaces =
             [\<lparr>if_device = None, if_addresses = [(2130706433, 4278190080)],
                 if_metric = Suc 0, if_up = True\<rparr>,
              \<lparr>if_device = Some \<lparr>dev_node = RouterB, dev_channel = Suc 0\<rparr>,
                 if_addresses = [(167772418, 4294967040)],
                 if_metric = Suc 0, if_up = True\<rparr>,
              \<lparr>if_device =
                 Some \<lparr>dev_node = RouterB, dev_channel = Suc (Suc (Suc 0))\<rparr>,
                 if_addresses = [(167772929, 4294967040)],
                 if_metric = Suc 0, if_up = True\<rparr>,
              \<lparr>if_device =
                 Some
                  \<lparr>dev_node = RouterB,
                     dev_channel = Suc (Suc (Suc (Suc (Suc 0))))\<rparr>,
                 if_addresses = [(167773441, 4294967040)],
                 if_metric = Suc 0, if_up = True\<rparr>],
             rip =
               Some
                \<lparr>rip_interfaceExclusions = {},
                   rip_interfaceMetrics = [2 \<mapsto> 5]\<rparr>,
             staticRouting = None\<rparr>,
          RouterD \<mapsto>
          \<lparr>interfaces =
             [\<lparr>if_device = None, if_addresses = [(2130706433, 4278190080)],
                 if_metric = Suc 0, if_up = True\<rparr>,
              \<lparr>if_device =
                 Some
                  \<lparr>dev_node = RouterD,
                     dev_channel = Suc (Suc (Suc (Suc 0)))\<rparr>,
                 if_addresses = [(167773186, 4294967040)],
                 if_metric = Suc 0, if_up = True\<rparr>,
              \<lparr>if_device =
                 Some
                  \<lparr>dev_node = RouterD,
                     dev_channel = Suc (Suc (Suc (Suc (Suc 0))))\<rparr>,
                 if_addresses = [(167773442, 4294967040)],
                 if_metric = Suc 0, if_up = True\<rparr>,
              \<lparr>if_device =
                 Some
                  \<lparr>dev_node = RouterD,
                     dev_channel = Suc (Suc (Suc (Suc (Suc (Suc 0)))))\<rparr>,
                 if_addresses = [(167773697, 4294967040)],
                 if_metric = Suc 0, if_up = True\<rparr>],
             rip =
               Some
                \<lparr>rip_interfaceExclusions = {3},
                   rip_interfaceMetrics = [Suc 0 \<mapsto> 10]\<rparr>,
             staticRouting = None\<rparr>,
          SrcNode \<mapsto>
          \<lparr>interfaces =
             [\<lparr>if_device = None, if_addresses = [(2130706433, 4278190080)],
                 if_metric = Suc 0, if_up = True\<rparr>,
              \<lparr>if_device = Some \<lparr>dev_node = SrcNode, dev_channel = 0\<rparr>,
                 if_addresses = [(167772161, 4294967040)],
                 if_metric = Suc 0, if_up = True\<rparr>],
             rip = None,
             staticRouting =
               Some
                [\<lparr>rt_dest = 0, rt_mask = 0, rt_gateway = 167772162,
                    rt_interface = Suc 0\<rparr>]\<rparr>,
          DstNode \<mapsto>
          \<lparr>interfaces =
             [\<lparr>if_device = None, if_addresses = [(2130706433, 4278190080)],
                 if_metric = Suc 0, if_up = True\<rparr>,
              \<lparr>if_device =
                 Some
                  \<lparr>dev_node = DstNode,
                     dev_channel = Suc (Suc (Suc (Suc (Suc (Suc 0)))))\<rparr>,
                 if_addresses = [(167773698, 4294967040)],
                 if_metric = Suc 0, if_up = True\<rparr>],
             rip = None,
             staticRouting =
               Some
                [\<lparr>rt_dest = 0, rt_mask = 0, rt_gateway = 167773697,
                    rt_interface = Suc 0\<rparr>]\<rparr>],
       ipv4 = \<lparr>m_network = 167773696, m_mask = 4294967040, m_address = 3\<rparr>,
       iic =
         [Suc 0 \<mapsto> [(SrcNode, Suc 0), (RouterA, Suc 0)],
          2 \<mapsto> [(RouterA, Suc (Suc 0)), (RouterB, Suc 0)],
          3 \<mapsto> [(RouterA, Suc (Suc (Suc 0))), (RouterC, Suc 0)],
          4 \<mapsto> [(RouterB, Suc (Suc 0)), (RouterC, Suc (Suc 0))],
          5 \<mapsto> [(RouterC, Suc (Suc (Suc 0))), (RouterD, Suc 0)],
          6 \<mapsto> [(RouterB, Suc (Suc (Suc 0))), (RouterD, Suc (Suc 0))],
          7 \<mapsto> [(RouterD, Suc (Suc (Suc 0))), (DstNode, Suc 0)]],
       ping =
         Some
          \<lparr>ping_Destination = 167773698, ping_Interval = Some 1000000000,
             ping_Size = Some 1024,
             ping_VerboseMode = if \<not> s then Some VERBOSE else None\<rparr>,
       apps =
         [\<lparr>app_node = SrcNode,
             app_ping =
               \<lparr>ping_Destination = 167773698,
                  ping_Interval = Some 1000000000, ping_Size = Some 1024,
                  ping_VerboseMode = if \<not> s then Some VERBOSE else None\<rparr>,
             m_startTime = 1000000000, m_stopTime = 110000000000\<rparr>],
       ascii_trace = Some ''rip-simple-routing.tr'',
       pcap_trace = Some (''rip-simple-routing'', True),
       anim =
         Some
          \<lparr>anim_fileName =
             CHR ''r'' #
             CHR ''i'' #
             CHR ''p'' #
             CHR ''-'' #
             CHR ''s'' #
             CHR ''i'' #
             CHR ''m'' #
             CHR ''p'' #
             CHR ''l'' #
             CHR ''e'' #
             CHR ''-'' #
             CHR ''r'' #
             CHR ''o'' #
             CHR ''u'' #
             CHR ''t'' #
             CHR ''i'' # CHR ''n'' # CHR ''g'' # CHR ''-'' # h @ ''.xml'',
             anim_position =
               [SrcNode \<mapsto> (0, 0), RouterA \<mapsto> (2, 1), RouterB \<mapsto> (4, 0),
                RouterC \<mapsto> (2, - 1), RouterD \<mapsto> (6, 0), DstNode \<mapsto> (8, 0)],
             anim_color = \<lambda>x. None,
             anim_description =
               [RouterA \<mapsto>
                CHR ''R'' #
                CHR ''o'' #
                CHR ''u'' #
                CHR ''t'' #
                CHR ''e'' #
                CHR ''r'' # CHR '' '' # CHR ''A'' # CHR ''\<newline>'' # h,
                RouterB \<mapsto>
                CHR ''R'' #
                CHR ''o'' #
                CHR ''u'' #
                CHR ''t'' #
                CHR ''e'' #
                CHR ''r'' # CHR '' '' # CHR ''B'' # CHR ''\<newline>'' # h,
                RouterC \<mapsto>
                CHR ''R'' #
                CHR ''o'' #
                CHR ''u'' #
                CHR ''t'' #
                CHR ''e'' #
                CHR ''r'' # CHR '' '' # CHR ''C'' # CHR ''\<newline>'' # h,
                RouterD \<mapsto>
                CHR ''R'' #
                CHR ''o'' #
                CHR ''u'' #
                CHR ''t'' #
                CHR ''e'' #
                CHR ''r'' # CHR '' '' # CHR ''D'' # CHR ''\<newline>'' # h]\<rparr>,
       g_anim = addr_anim,
       events =
         (if \<not> p
          then [(30000000000, EvPrintRoutingTable RouterA),
                (30000000000, EvPrintRoutingTable RouterB),
                (30000000000, EvPrintRoutingTable RouterC),
                (30000000000, EvPrintRoutingTable RouterD),
                (60000000000, EvPrintRoutingTable RouterA),
                (60000000000, EvPrintRoutingTable RouterB),
                (60000000000, EvPrintRoutingTable RouterC),
                (60000000000, EvPrintRoutingTable RouterD),
                (90000000000, EvPrintRoutingTable RouterA),
                (90000000000, EvPrintRoutingTable RouterB),
                (90000000000, EvPrintRoutingTable RouterC),
                (90000000000, EvPrintRoutingTable RouterD)]
          else []) @
         [(40000000000, EvTearDownLink RouterB RouterD 3 2),
          (60000000000, EvTearDownLink RouterC RouterD 2 (Suc 0)),
          (80000000000, EvRecoverLink RouterB RouterD 3 2),
          (100000000000, EvRecoverLink RouterC RouterD 2 (Suc 0)),
          (131000000000, EvStop)],
       now = 0, executed = [], routingStream = []\<rparr>"
  unfolding scenario_def setup_steps_def
  by (simp add: step_defs IF_let if_Inr if_Some if_world if_PingHelper Let_def
      assms[unfolded world0_def] world0_def split del: if_split)

lemmas scenario_state = scenario_eval [OF cmd_Parse_args_eq]

lemma run_steps_append:
  "run_steps (xs @ ys) w = (case run_steps xs w of Inl e \<Rightarrow> Inl e | Inr w' \<Rightarrow> run_steps ys w')"
  by (induction xs arbitrary: w) (auto split: sum.splits)

lemma scenario_ok: "\<exists>w. scenario argv = Inr w"
  by (simp add: scenario_state)

lemma scenario_flags:
  assumes "scenario argv = Inr w"
  shows "verbose w = verbose (cmd_Parse_args argv world0)"
    and "printRoutingTables w = printRoutingTables (cmd_Parse_args argv world0)"
    and "showPings w = showPings (cmd_Parse_args argv world0)"
    and "SplitHorizon w = SplitHorizon (cmd_Parse_args argv world0)"
  using assms by (auto simp: scenario_state)

lemma scenario_iic:
  assumes "scenario argv = Inr w"
  shows "iic w = [1 \<mapsto> [(SrcNode, 1), (RouterA, 1)],
                  2 \<mapsto> [(RouterA, 2), (RouterB, 1)],
                  3 \<mapsto> [(RouterA, 3), (RouterC, 1)],
                  4 \<mapsto> [(RouterB, 2), (RouterC, 2)],
                  5 \<mapsto> [(RouterC, 3), (RouterD, 1)],
                  6 \<mapsto> [(RouterB, 3), (RouterD, 2)],
                  7 \<mapsto> [(RouterD, 3), (DstNode, 1)]]"
  using assms by (auto simp: scenario_state numeral_2_eq_2 numeral_3_eq_3)

lemma scenario_GetRip:
  assumes "scenario argv = Inr w"
  shows "GetRip w n =
     (case n of
        RouterA \<Rightarrow> Some \<lparr>rip_interfaceExclusions = {1}, rip_interfaceMetrics = Map.empty\<rparr>
      | RouterB \<Rightarrow> Some \<lparr>rip_interfaceExclusions = {}, rip_interfaceMetrics = [2 \<mapsto> 5]\<rparr>
      | RouterC \<Rightarrow> Some \<lparr>rip_interfaceExclusions = {}, rip_interfaceMetrics = [3 \<mapsto> 10, 1 \<mapsto> 5]\<rparr>
      | RouterD \<Rightarrow> Some \<lparr>rip_interfaceExclusions = {3}, rip_interfaceMetrics = [1 \<mapsto> 10]\<rparr>
      | _ \<Rightarrow> None)"
  using assms by (cases n) (auto simp: scenario_state GetRip_def)

lemma scenario_GetStaticRoutes:
  assumes "scenario argv = Inr w"
  shows "GetStaticRoutes w n =
     (case n of
        SrcNode \<Rightarrow> Some [\<lparr>rt_dest = 0, rt_mask = 0, rt_gateway = Ipv4Address ''10.0.0.2'', rt_interface = 1\<rparr>]
      | DstNode \<Rightarrow> Some [\<lparr>rt_dest = 0, rt_mask = 0, rt_gateway = Ipv4Address ''10.0.6.1'', rt_interface = 1\<rparr>]
      | _ \<Rightarrow> None)"
  using assms by (cases n) (auto simp: scenario_state GetStaticRoutes_def Ipv4Address_def)

lemma scenario_GetAddresses:
  assumes "scenario argv = Inr w"
  shows "GetAddresses w SrcNode 1 = [(Ipv4Address ''10.0.0.1'', Ipv4Mask ''255.255.255.0'')]"
    and "GetAddresses w RouterA 1 = [(Ipv4Address ''10.0.0.2'', Ipv4Mask ''255.255.255.0'')]"
    and "GetAddresses w RouterA 2 = [(Ipv4Address ''10.0.1.1'', Ipv4Mask ''255.255.255.0'')]"
    and "GetAddresses w RouterB 1 = [(Ipv4Address ''10.0.1.2'', Ipv4Mask ''255.255.255.0'')]"
    and "GetAddresses w RouterA 3 = [(Ipv4Address ''10.0.2.1'', Ipv4Mask ''255.255.255.0'')]"
    and "GetAddresses w RouterC 1 = [(Ipv4Address ''10.0.2.2'', Ipv4Mask ''255.255.255.0'')]"
    and "GetAddresses w RouterB 2 = [(Ipv4Address ''10.0.3.1'', Ipv4Mask ''255.255.255.0'')]"
    and "GetAddresses w RouterC 2 = [(Ipv4Address ''10.0.3.2'', Ipv4Mask ''255.255.255.0'')]"
    and "GetAddresses w RouterC 3 = [(Ipv4Address ''10.0.4.1'', Ipv4Mask ''255.255.255.0'')]"
    and "GetAddresses w RouterD 1 = [(Ipv4Address ''10.0.4.2'', Ipv4Mask ''255.255.255.0'')]"
    and "GetAddresses w RouterB 3 = [(Ipv4Address ''10.0.5.1'', Ipv4Mask ''255.255.255.0'')]"
    and "GetAddresses w RouterD 2 = [(Ipv4Address ''10.0.5.2'', Ipv4Mask ''255.255.255.0'')]"
    and "GetAddresses w RouterD 3 = [(Ipv4Address ''10.0.6.1'', Ipv4Mask ''255.255.255.0'')]"
    and "GetAddresses w DstNode 1 = [(Ipv4Address ''10.0.6.2'', Ipv4Mask ''255.255.255.0'')]"
  using assms
  by (auto simp: scenario_state GetAddresses_def GetInterface_def Ipv4Address_def Ipv4Mask_def)


lemma scenario_events:
  assumes "scenario argv = Inr w"
  shows "events w =
     (if printRoutingTables w then []
      else [(Seconds 30, EvPrintRoutingTable RouterA), (Seconds 30, EvPrintRoutingTable RouterB),
            (Seconds 30, EvPrintRoutingTable RouterC), (Seconds 30, EvPrintRoutingTable RouterD),
            (Seconds 60, EvPrintRoutingTable RouterA), (Seconds 60, EvPrintRoutingTable RouterB),
            (Seconds 60, EvPrintRoutingTable RouterC), (Seconds 60, EvPrintRoutingTable RouterD),
            (Seconds 90, EvPrintRoutingTable RouterA), (Seconds 90, EvPrintRoutingTable RouterB),
            (Seconds 90, EvPrintRoutingTable RouterC), (Seconds 90, EvPrintRoutingTable RouterD)]) @
     [(Seconds 40, EvTearDownLink RouterB RouterD 3 2),
      (Seconds 60, EvTearDownLink RouterC RouterD 2 1),
      (Seconds 80, EvRecoverLink RouterB RouterD 3 2),
      (Seconds 100, EvRecoverLink RouterC RouterD 2 1),
      (Seconds 131, EvStop)]"
  using assms by (auto simp: scenario_state Seconds_def)

lemma scenario_misc:
  assumes "scenario argv = Inr w"
  shows "g_anim w = addr_anim" and "now w = 0" and "length (channels w) = 7"
    and "node_color n w = None"
    and "config_defaults w = [''ns3::RipNg::SplitHorizon'' \<mapsto>
           (if SplitHorizon w = ''NoSplitHorizon'' then NO_SPLIT_HORIZON
            else if SplitHorizon w = ''SplitHorizon'' then SPLIT_HORIZON else POISON_REVERSE)]"
  using assms by (auto simp: scenario_state node_color_def)

section \<open>Evaluating the run and the handlers\<close>

text \<open>
  The run only reads the event queue, the clock, the global pointer, the animation object
  and the interface lists of B, C and D, so it is evaluated on a state of which only
  these are known.
\<close>

lemmas run_defs = Simulator_Run_def Simulator_Destroy_def Simulator_Stop_def Simulator_Schedule_def
  TearDownLink_def RecoverLink_def Ipv4_SetDown_def Ipv4_SetUp_def Ipv4_SetUpDown_def IF_def
  g_anim_call_def anim_call_def UpdateNodeColor_def UpdateNodeDescription_def set_g_anim_def

lemma scenario_stacks:
  assumes "scenario argv = Inr w"
  shows "\<exists>sB sC sD b0 b1 b2 b3 c0 c1 c2 c3 d0 d1 d2 d3 a0.
     ipv4_of w RouterB = Some sB \<and> interfaces sB = [b0, b1, b2, b3] \<and>
     ipv4_of w RouterC = Some sC \<and> interfaces sC = [c0, c1, c2, c3] \<and>
     ipv4_of w RouterD = Some sD \<and> interfaces sD = [d0, d1, d2, d3] \<and>
     if_up b2 \<and> if_up b3 \<and> if_up c2 \<and> if_up c3 \<and> if_up d1 \<and> if_up d2 \<and>
     anim w = Some a0"
  using assms by (auto simp: scenario_state)

lemma main_eval:
  assumes w: "scenario argv = Inr w"
  shows "\<exists>w'. main argv = Inr (0, w') \<and> now w' = Seconds 131 \<and> events w' = [] \<and>
     g_anim w' = nullptr \<and> config_defaults w' = config_defaults w \<and>
     routingStream w' =
       (if printRoutingTables w then []
        else [(Seconds 30, RouterA), (Seconds 30, RouterB), (Seconds 30, RouterC), (Seconds 30, RouterD),
              (Seconds 60, RouterA), (Seconds 60, RouterB), (Seconds 60, RouterC), (Seconds 60, RouterD),
              (Seconds 90, RouterA), (Seconds 90, RouterB), (Seconds 90, RouterC), (Seconds 90, RouterD)]) \<and>
     filter is_link_event (executed w') =
       [(Seconds 40, EvTearDownLink RouterB RouterD 3 2),
        (Seconds 60, EvTearDownLink RouterC RouterD 2 1),
        (Seconds 80, EvRecoverLink RouterB RouterD 3 2),
        (Seconds 100, EvRecoverLink RouterC RouterD 2 1)] \<and>
     last (executed w') = (Seconds 131, EvStop)"
proof -
  obtain sB sC sD b0 b1 b2 b3 c0 c1 c2 c3 d0 d1 d2 d3 a0 where st:
    "ipv4_of w RouterB = Some sB" "interfaces sB = [b0, b1, b2, b3]"
    "ipv4_of w RouterC = Some sC" "interfaces sC = [c0, c1, c2, c3]"
    "ipv4_of w RouterD = Some sD" "interfaces sD = [d0, d1, d2, d3]"
    "anim w = Some a0"
    using scenario_stacks [OF w] by blast
  note facts = st scenario_misc(1,2) [OF w] scenario_events [OF w]
  have ex: "executed w = []" "routingStream w = []"
    using w by (auto simp: scenario_state)
  have m: "main argv = (case run_steps [Simulator_Run, Simulator_Destroy, set_g_anim nullptr] w of
      Inl e \<Rightarrow> Inl e | Inr w' \<Rightarrow> Inr (0, w'))"
    unfolding main_def run_steps_append scenario_def [symmetric] w by simp
  show ?thesis
  proof (cases "printRoutingTables w")
    case True
    show ?thesis
      unfolding m
      by (simp add: True facts ex run_defs Let_def Seconds_def is_link_event_def)
  next
    case False
    show ?thesis
      unfolding m
      by (simp add: False facts ex run_defs Let_def Seconds_def is_link_event_def)
  qed
qed

lemma run_until_60:
  assumes w: "scenario argv = Inr w"
  shows "\<exists>w'. run_until (Seconds 60) w = Inr w' \<and> now w' = Seconds 60 \<and>
     IsUp w' RouterB 3 = Some False \<and> IsUp w' RouterD 2 = Some False \<and>
     IsUp w' RouterC 2 = Some False \<and> IsUp w' RouterD 1 = Some False \<and>
     IsUp w' RouterC 3 = Some True"
proof -
  obtain sB sC sD b0 b1 b2 b3 c0 c1 c2 c3 d0 d1 d2 d3 a0 where st:
    "ipv4_of w RouterB = Some sB" "interfaces sB = [b0, b1, b2, b3]"
    "ipv4_of w RouterC = Some sC" "interfaces sC = [c0, c1, c2, c3]"
    "ipv4_of w RouterD = Some sD" "interfaces sD = [d0, d1, d2, d3]"
    "if_up b2" "if_up b3" "if_up c2" "if_up c3" "if_up d1" "if_up d2"
    "anim w = Some a0"
    using scenario_stacks [OF w] by blast
  note facts = st scenario_misc(1,2) [OF w] scenario_events [OF w]
  show ?thesis
  proof (cases "printRoutingTables w")
    case True
    show ?thesis
      unfolding run_until_def
      by (simp add: True facts run_defs Let_def Seconds_def IsUp_def GetInterface_def)
  next
    case False
    show ?thesis
      unfolding run_until_def
      by (simp add: False facts run_defs Let_def Seconds_def IsUp_def GetInterface_def)
  qed
qed









section \<open>The claims\<close>

text \<open>
  Claim C1 (interface metrics). The claim: C's and D's interfaces on net5 have metric 10,
  B's and C's interfaces on net4 have metric 5, every other interface has metric 1.
  What the program configures, for every command line: C's interface on net5 is its
  interface 3 and has metric 10, D's interface on net5 is its interface 1 and has metric
  10, B's interface on net4 is its interface 2 and has metric 5; but the fourth call,
  \<^verbatim>\<open>SetInterfaceMetric(c, 1, 5)\<close>, names C's interface 1, which is C's interface on net3
  (A-C). So C's interface on net4 (its interface 2) keeps metric 1 and C's interface on
  net3 has metric 5. Every interface other than these four has metric 1.
\<close>

theorem C1_interface_metrics_as_coded:
  "\<exists>w. scenario argv = Inr w \<and>
     interface_on w 5 RouterC = Some 3 \<and> GetInterfaceMetric w RouterC 3 = Some 10 \<and>
     interface_on w 5 RouterD = Some 1 \<and> GetInterfaceMetric w RouterD 1 = Some 10 \<and>
     interface_on w 4 RouterB = Some 2 \<and> GetInterfaceMetric w RouterB 2 = Some 5 \<and>
     interface_on w 4 RouterC = Some 2 \<and> GetInterfaceMetric w RouterC 2 = Some 1 \<and>
     interface_on w 3 RouterC = Some 1 \<and> GetInterfaceMetric w RouterC 1 = Some 5 \<and>
     (\<forall>n i. GetInterfaceMetric w n i =
        (if n \<in> set routers
         then Some (if (n, i) \<in> {(RouterC, 3), (RouterD, 1)} then 10
                    else if (n, i) \<in> {(RouterB, 2), (RouterC, 1)} then 5 else 1)
         else None))"
proof -
  obtain w where w: "scenario argv = Inr w"
    using scenario_ok by blast
  have on: "interface_on w 5 RouterC = Some 3" "interface_on w 5 RouterD = Some 1"
    "interface_on w 4 RouterB = Some 2" "interface_on w 4 RouterC = Some 2"
    "interface_on w 3 RouterC = Some 1"
    by (simp_all add: interface_on_def scenario_iic [OF w])
  have metric: "GetInterfaceMetric w n i =
        (if n \<in> set routers
         then Some (if (n, i) \<in> {(RouterC, 3), (RouterD, 1)} then 10
                    else if (n, i) \<in> {(RouterB, 2), (RouterC, 1)} then 5 else 1)
         else None)" for n i
    by (cases n) (auto simp: GetInterfaceMetric_def scenario_GetRip [OF w] routers_def)
  have "GetInterfaceMetric w RouterC 3 = Some 10" "GetInterfaceMetric w RouterD 1 = Some 10"
    "GetInterfaceMetric w RouterB 2 = Some 5" "GetInterfaceMetric w RouterC 2 = Some 1"
    "GetInterfaceMetric w RouterC 1 = Some 5"
    by (simp_all add: metric routers_def)
  note m = this
  show ?thesis
    by (rule exI [of _ w]) (intro conjI allI; fact)
qed

text \<open>
  Claim C2 (scenario timeline). The claim: at T=40 both endpoints of link B-D are set
  down, at T=60 both endpoints of link C-D, at T=80 both endpoints of B-D are set up, at
  T=100 both endpoints of C-D, and the simulation halts at T=131.
  What the program does, for every command line: the four handler calls are scheduled at
  40, 60, 80 and 100 seconds and fire in that order, and the run halts at 131 seconds.
  The calls of 40 and 80 name interface 3 of B and interface 2 of D, the two endpoints of
  net6 (B-D). The calls of 60 and 100 are \<^verbatim>\<open>(c, d, 2, 1)\<close>: interface 1 of D is D's endpoint
  of net5 (C-D), but interface 2 of C is C's endpoint of net4 (B-C); C's endpoint of net5
  is its interface 3. So when the simulation has passed T=60, C's interface on net5 is
  still up and C's interface on net4 is down.
\<close>

theorem C2_timeline_as_coded:
  "\<exists>w. scenario argv = Inr w \<and>
     filter is_link_event (events w) =
       [(Seconds 40, EvTearDownLink RouterB RouterD 3 2),
        (Seconds 60, EvTearDownLink RouterC RouterD 2 1),
        (Seconds 80, EvRecoverLink RouterB RouterD 3 2),
        (Seconds 100, EvRecoverLink RouterC RouterD 2 1)] \<and>
     interface_on w 6 RouterB = Some 3 \<and> interface_on w 6 RouterD = Some 2 \<and>
     interface_on w 5 RouterC = Some 3 \<and> interface_on w 5 RouterD = Some 1 \<and>
     interface_on w 4 RouterC = Some 2 \<and>
     (\<exists>w'. run_until (Seconds 60) w = Inr w' \<and> now w' = Seconds 60 \<and>
        IsUp w' RouterB 3 = Some False \<and> IsUp w' RouterD 2 = Some False \<and>
        IsUp w' RouterC 2 = Some False \<and> IsUp w' RouterD 1 = Some False \<and>
        IsUp w' RouterC 3 = Some True) \<and>
     (\<exists>w'. main argv = Inr (0, w') \<and> now w' = Seconds 131 \<and>
        last (executed w') = (Seconds 131, EvStop) \<and>
        filter is_link_event (executed w') =
          [(Seconds 40, EvTearDownLink RouterB RouterD 3 2),
           (Seconds 60, EvTearDownLink RouterC RouterD 2 1),
           (Seconds 80, EvRecoverLink RouterB RouterD 3 2),
           (Seconds 100, EvRecoverLink RouterC RouterD 2 1)])"
proof -
  obtain w where w: "scenario argv = Inr w"
    using scenario_ok by blast
  have "filter is_link_event (events w) =
       [(Seconds 40, EvTearDownLink RouterB RouterD 3 2),
        (Seconds 60, EvTearDownLink RouterC RouterD 2 1),
        (Seconds 80, EvRecoverLink RouterB RouterD 3 2),
        (Seconds 100, EvRecoverLink RouterC RouterD 2 1)]"
    by (simp add: scenario_events [OF w] is_link_event_def)
  have "interface_on w 6 RouterB = Some 3" "interface_on w 6 RouterD = Some 2"
    "interface_on w 5 RouterC = Some 3" "interface_on w 5 RouterD = Some 1"
    "interface_on w 4 RouterC = Some 2"
    by (simp_all add: interface_on_def scenario_iic [OF w])
  have "\<exists>w'. run_until (Seconds 60) w = Inr w' \<and> now w' = Seconds 60 \<and>
        IsUp w' RouterB 3 = Some False \<and> IsUp w' RouterD 2 = Some False \<and>
        IsUp w' RouterC 2 = Some False \<and> IsUp w' RouterD 1 = Some False \<and>
        IsUp w' RouterC 3 = Some True"
    by (rule run_until_60 [OF w])
  have "\<exists>w'. main argv = Inr (0, w') \<and> now w' = Seconds 131 \<and>
        last (executed w') = (Seconds 131, EvStop) \<and>
        filter is_link_event (executed w') =
          [(Seconds 40, EvTearDownLink RouterB RouterD 3 2),
           (Seconds 60, EvTearDownLink RouterC RouterD 2 1),
           (Seconds 80, EvRecoverLink RouterB RouterD 3 2),
           (Seconds 100, EvRecoverLink RouterC RouterD 2 1)]"
    using main_eval [OF w] by blast
  show ?thesis
    by (rule exI [of _ w]) (intro conjI; fact)
qed

text \<open>
  Claim C3 (RIP exclusions). For every command line, an interface is excluded from RIP
  exactly when it is A's interface on net1 (the network of SRC and A) or D's interface
  on net7 (the network of D and DST).
\<close>

theorem C3_rip_excluded_interfaces:
  "\<exists>w. scenario argv = Inr w \<and>
     network w 1 \<noteq> None \<and> interface_on w 1 SrcNode = Some 1 \<and> interface_on w 1 RouterA = Some 1 \<and>
     interface_on w 7 RouterD = Some 3 \<and> interface_on w 7 DstNode = Some 1 \<and>
     (\<forall>n i. IsInterfaceExcluded w n i =
        (n = RouterA \<and> interface_on w 1 RouterA = Some i \<or>
         n = RouterD \<and> interface_on w 7 RouterD = Some i))"
proof -
  obtain w where w: "scenario argv = Inr w"
    using scenario_ok by blast
  have on: "interface_on w 1 SrcNode = Some 1" "interface_on w 1 RouterA = Some 1"
    "interface_on w 7 RouterD = Some 3" "interface_on w 7 DstNode = Some 1" "network w 1 \<noteq> None"
    by (simp_all add: interface_on_def network_def scenario_iic [OF w])
  have "IsInterfaceExcluded w n i =
        (n = RouterA \<and> interface_on w 1 RouterA = Some i \<or>
         n = RouterD \<and> interface_on w 7 RouterD = Some i)" for n i
    unfolding on by (cases n) (auto simp: IsInterfaceExcluded_def scenario_GetRip [OF w])
  note ex = this
  show ?thesis
    by (rule exI [of _ w]) (intro conjI allI; fact)
qed

text \<open>
  Claim C4 (topology). For every command line the set-up builds exactly seven networks
  (seven channels, seven interface containers): net1 SRC-A on 10.0.0.0, net2 A-B on
  10.0.1.0, net3 A-C on 10.0.2.0, net4 B-C on 10.0.3.0, net5 C-D on 10.0.4.0, net6 B-D on
  10.0.5.0 and net7 D-DST on 10.0.6.0, every endpoint interface with mask 255.255.255.0.
\<close>

theorem C4_topology:
  "\<exists>w. scenario argv = Inr w \<and> length (channels w) = 7 \<and> dom (iic w) = {1, 2, 3, 4, 5, 6, 7} \<and>
     network w 1 = Some [(SrcNode, [(Ipv4Address ''10.0.0.0'', Ipv4Mask ''255.255.255.0'')]),
                         (RouterA, [(Ipv4Address ''10.0.0.0'', Ipv4Mask ''255.255.255.0'')])] \<and>
     network w 2 = Some [(RouterA, [(Ipv4Address ''10.0.1.0'', Ipv4Mask ''255.255.255.0'')]),
                         (RouterB, [(Ipv4Address ''10.0.1.0'', Ipv4Mask ''255.255.255.0'')])] \<and>
     network w 3 = Some [(RouterA, [(Ipv4Address ''10.0.2.0'', Ipv4Mask ''255.255.255.0'')]),
                         (RouterC, [(Ipv4Address ''10.0.2.0'', Ipv4Mask ''255.255.255.0'')])] \<and>
     network w 4 = Some [(RouterB, [(Ipv4Address ''10.0.3.0'', Ipv4Mask ''255.255.255.0'')]),
                         (RouterC, [(Ipv4Address ''10.0.3.0'', Ipv4Mask ''255.255.255.0'')])] \<and>
     network w 5 = Some [(RouterC, [(Ipv4Address ''10.0.4.0'', Ipv4Mask ''255.255.255.0'')]),
                         (RouterD, [(Ipv4Address ''10.0.4.0'', Ipv4Mask ''255.255.255.0'')])] \<and>
     network w 6 = Some [(RouterB, [(Ipv4Address ''10.0.5.0'', Ipv4Mask ''255.255.255.0'')]),
                         (RouterD, [(Ipv4Address ''10.0.5.0'', Ipv4Mask ''255.255.255.0'')])] \<and>
     network w 7 = Some [(RouterD, [(Ipv4Address ''10.0.6.0'', Ipv4Mask ''255.255.255.0'')]),
                         (DstNode, [(Ipv4Address ''10.0.6.0'', Ipv4Mask ''255.255.255.0'')])]"
proof -
  obtain w where w: "scenario argv = Inr w"
    using scenario_ok by blast
  have len: "length (channels w) = 7"
    by (rule scenario_misc [OF w])
  have d: "dom (iic w) = {1, 2, 3, 4, 5, 6, 7}"
    by (auto simp: scenario_iic [OF w])
  have n1: "network w 1 = Some [(SrcNode, [(Ipv4Address ''10.0.0.0'', Ipv4Mask ''255.255.255.0'')]),
                         (RouterA, [(Ipv4Address ''10.0.0.0'', Ipv4Mask ''255.255.255.0'')])]"
    by (simp add: network_def scenario_iic [OF w] scenario_GetAddresses [OF w, unfolded One_nat_def]
        CombineMask_def Ipv4Address_def Ipv4Mask_def)
  have n2: "network w 2 = Some [(RouterA, [(Ipv4Address ''10.0.1.0'', Ipv4Mask ''255.255.255.0'')]),
                         (RouterB, [(Ipv4Address ''10.0.1.0'', Ipv4Mask ''255.255.255.0'')])]"
    by (simp add: network_def scenario_iic [OF w] scenario_GetAddresses [OF w, unfolded One_nat_def]
        CombineMask_def Ipv4Address_def Ipv4Mask_def)
  have n3: "network w 3 = Some [(RouterA, [(Ipv4Address ''10.0.2.0'', Ipv4Mask ''255.255.255.0'')]),
                         (RouterC, [(Ipv4Address ''10.0.2.0'', Ipv4Mask ''255.255.255.0'')])]"
    by (simp add: network_def scenario_iic [OF w] scenario_GetAddresses [OF w, unfolded One_nat_def]
        CombineMask_def Ipv4Address_def Ipv4Mask_def)
  have n4: "network w 4 = Some [(RouterB, [(Ipv4Address ''10.0.3.0'', Ipv4Mask ''255.255.255.0'')]),
                         (RouterC, [(Ipv4Address ''10.0.3.0'', Ipv4Mask ''255.255.255.0'')])]"
    by (simp add: network_def scenario_iic [OF w] scenario_GetAddresses [OF w, unfolded One_nat_def]
        CombineMask_def Ipv4Address_def Ipv4Mask_def)
  have n5: "network w 5 = Some [(RouterC, [(Ipv4Address ''10.0.4.0'', Ipv4Mask ''255.255.255.0'')]),
                         (RouterD, [(Ipv4Address ''10.0.4.0'', Ipv4Mask ''255.255.255.0'')])]"
    by (simp add: network_def scenario_iic [OF w] scenario_GetAddresses [OF w, unfolded One_nat_def]
        CombineMask_def Ipv4Address_def Ipv4Mask_def)
  have n6: "network w 6 = Some [(RouterB, [(Ipv4Address ''10.0.5.0'', Ipv4Mask ''255.255.255.0'')]),
                         (RouterD, [(Ipv4Address ''10.0.5.0'', Ipv4Mask ''255.255.255.0'')])]"
    by (simp add: network_def scenario_iic [OF w] scenario_GetAddresses [OF w, unfolded One_nat_def]
        CombineMask_def Ipv4Address_def Ipv4Mask_def)
  have n7: "network w 7 = Some [(RouterD, [(Ipv4Address ''10.0.6.0'', Ipv4Mask ''255.255.255.0'')]),
                         (DstNode, [(Ipv4Address ''10.0.6.0'', Ipv4Mask ''255.255.255.0'')])]"
    by (simp add: network_def scenario_iic [OF w] scenario_GetAddresses [OF w, unfolded One_nat_def]
        CombineMask_def Ipv4Address_def Ipv4Mask_def)
  show ?thesis
    by (rule exI [of _ w]) (intro conjI allI; fact)
qed


text \<open>
  Claim C6 (static default routes). For every command line, SRC has exactly one static
  route, the default route with next hop 10.0.0.2, which is A's address on net1; DST has
  exactly one, the default route with next hop 10.0.6.1, which is D's address on net7;
  and only the two hosts have a static routing table.
\<close>

theorem C6_static_default_routes:
  "\<exists>w. scenario argv = Inr w \<and>
     GetStaticRoutes w SrcNode =
       Some [\<lparr>rt_dest = Ipv4Address ''0.0.0.0'', rt_mask = Ipv4Mask ''0.0.0.0'',
              rt_gateway = Ipv4Address ''10.0.0.2'', rt_interface = 1\<rparr>] \<and>
     GetStaticRoutes w DstNode =
       Some [\<lparr>rt_dest = Ipv4Address ''0.0.0.0'', rt_mask = Ipv4Mask ''0.0.0.0'',
              rt_gateway = Ipv4Address ''10.0.6.1'', rt_interface = 1\<rparr>] \<and>
     (\<forall>n. (GetStaticRoutes w n \<noteq> None) = (n \<in> set nodes)) \<and>
     interface_on w 1 RouterA = Some 1 \<and>
     map fst (GetAddresses w RouterA 1) = [Ipv4Address ''10.0.0.2''] \<and>
     interface_on w 7 RouterD = Some 3 \<and>
     map fst (GetAddresses w RouterD 3) = [Ipv4Address ''10.0.6.1'']"
proof -
  obtain w where w: "scenario argv = Inr w"
    using scenario_ok by blast
  have "GetStaticRoutes w SrcNode =
       Some [\<lparr>rt_dest = Ipv4Address ''0.0.0.0'', rt_mask = Ipv4Mask ''0.0.0.0'',
              rt_gateway = Ipv4Address ''10.0.0.2'', rt_interface = 1\<rparr>]"
    "GetStaticRoutes w DstNode =
       Some [\<lparr>rt_dest = Ipv4Address ''0.0.0.0'', rt_mask = Ipv4Mask ''0.0.0.0'',
              rt_gateway = Ipv4Address ''10.0.6.1'', rt_interface = 1\<rparr>]"
    by (simp_all add: scenario_GetStaticRoutes [OF w] Ipv4Address_def Ipv4Mask_def)
  have "(GetStaticRoutes w n \<noteq> None) = (n \<in> set nodes)" for n
    by (cases n) (simp_all add: scenario_GetStaticRoutes [OF w] nodes_def)
  have "interface_on w 1 RouterA = Some 1" "interface_on w 7 RouterD = Some 3"
    by (simp_all add: interface_on_def scenario_iic [OF w])
  have "map fst (GetAddresses w RouterA 1) = [Ipv4Address ''10.0.0.2'']"
    "map fst (GetAddresses w RouterD 3) = [Ipv4Address ''10.0.6.1'']"
    by (simp_all add: scenario_GetAddresses [OF w, unfolded One_nat_def])
  show ?thesis
    by (rule exI [of _ w]) (intro conjI allI; fact)
qed




text \<open>
  Claim C9 (unrecognised split-horizon strategy). For every command line whose
  splitHorizonStrategy value is neither "NoSplitHorizon" nor "SplitHorizon", the program
  sets the default of \<^verbatim>\<open>ns3::RipNg::SplitHorizon\<close> to PoisonReverse, raises no error and
  runs to the end with exit status 0.
\<close>

theorem C9_other_strategy_is_poison_reverse:
  assumes "SplitHorizon (cmd_Parse_args argv world0) \<noteq> ''NoSplitHorizon''"
    and "SplitHorizon (cmd_Parse_args argv world0) \<noteq> ''SplitHorizon''"
  shows "\<exists>w. main argv = Inr (0, w) \<and>
     config_defaults w = [''ns3::RipNg::SplitHorizon'' \<mapsto> POISON_REVERSE]"
proof -
  obtain w0 where w0: "scenario argv = Inr w0"
    using scenario_ok by blast
  have "config_defaults w0 = [''ns3::RipNg::SplitHorizon'' \<mapsto> POISON_REVERSE]"
    using assms by (simp add: scenario_misc(5) [OF w0] scenario_flags(4) [OF w0])
  with main_eval [OF w0] show ?thesis
    by auto
qed

theorem C9_other_strategy_witness:
  "SplitHorizon (cmd_Parse_args [arg_splitHorizonStrategy ''poisonreverse''] world0)
     \<noteq> ''NoSplitHorizon'' \<and>
   SplitHorizon (cmd_Parse_args [arg_splitHorizonStrategy ''poisonreverse''] world0)
     \<noteq> ''SplitHorizon'' \<and>
   (\<exists>w. main [arg_splitHorizonStrategy ''poisonreverse''] = Inr (0, w) \<and>
      config_defaults w = [''ns3::RipNg::SplitHorizon'' \<mapsto> POISON_REVERSE])"
  using C9_other_strategy_is_poison_reverse [of "[arg_splitHorizonStrategy ''poisonreverse'']"]
  by simp

text \<open>
  Claim C10 (routing-table snapshots). For every command line the program runs to the
  end, and the snapshots of A, B, C, D at 30, 60 and 90 seconds are printed when the
  flag printRoutingTables is false and none is printed when it is true.
\<close>

theorem C10_snapshots_iff_flag_false:
  "\<exists>w. main argv = Inr (0, w) \<and>
     routingStream w =
       (if printRoutingTables (cmd_Parse_args argv world0) then []
        else [(Seconds 30, RouterA), (Seconds 30, RouterB), (Seconds 30, RouterC), (Seconds 30, RouterD),
              (Seconds 60, RouterA), (Seconds 60, RouterB), (Seconds 60, RouterC), (Seconds 60, RouterD),
              (Seconds 90, RouterA), (Seconds 90, RouterB), (Seconds 90, RouterC), (Seconds 90, RouterD)])"
proof -
  obtain w0 where w0: "scenario argv = Inr w0"
    using scenario_ok by blast
  from main_eval [OF w0] show ?thesis
    unfolding scenario_flags(2) [OF w0] by blast
qed

theorem C10_snapshots_witness:
  "(\<exists>w. main [] = Inr (0, w) \<and>
      routingStream w =
        [(Seconds 30, RouterA), (Seconds 30, RouterB), (Seconds 30, RouterC), (Seconds 30, RouterD),
         (Seconds 60, RouterA), (Seconds 60, RouterB), (Seconds 60, RouterC), (Seconds 60, RouterD),
         (Seconds 90, RouterA), (Seconds 90, RouterB), (Seconds 90, RouterC), (Seconds 90, RouterD)]) \<and>
   (\<exists>w. main [arg_printRoutingTables True] = Inr (0, w) \<and> routingStream w = [])"
  using C10_snapshots_iff_flag_false [of "[]"]
    C10_snapshots_iff_flag_false [of "[arg_printRoutingTables True]"]
  by (simp add: world0_def)

end
